theory Spec2Isabelle
  imports Complex_Main
begin

section \<open>JavaScript numbers\<close>

text \<open>
  A Number is NaN, an infinity or a finite double, here the real it denotes; the sign of
  zero is not modelled. The finite doubles are the reals \<open>m * 2^q\<close> with \<open>|m| < 2^53\<close>
  and \<open>-1074 \<le> q \<le> 971\<close>.
\<close>

datatype jsnum = NaN | PosInf | NegInf | Fin real

definition pow2 :: "int \<Rightarrow> real" where
  "pow2 q = (if 0 \<le> q then 2 ^ nat q else 1 / 2 ^ nat (- q))"

text \<open>
  For \<open>x > 0\<close>, the exponent \<open>e\<close> with \<open>2^e \<le> x < 2^(e+1)\<close>, searched for by halving
  and doubling in at most \<open>n\<close> steps.
\<close>

function binade :: "nat \<Rightarrow> real \<Rightarrow> int" where
  "binade n x =
     (if n = 0 then 0
      else if 2 \<le> x then binade (n - 1) (x / 2) + 1
      else if x < 1 then binade (n - 1) (x * 2) - 1
      else 0)"
  by pat_completeness auto
termination
  by (relation "measure fst") auto

declare binade.simps [simp del]

definition round_half_even :: "real \<Rightarrow> int" where
  "round_half_even y =
     (let f = \<lfloor>y\<rfloor>; r = y - of_int f
      in if r < 1 / 2 then f else if 1 / 2 < r then f + 1 else if even f then f else f + 1)"

text \<open>
  \<open>fl x\<close> is the Number nearest to the real \<open>x\<close>: the significand has 53 bits, from
  the exponent \<open>-1022\<close> downwards the spacing stays \<open>2^-1074\<close>, a tie goes to the even
  significand, and what rounds to \<open>2^1024\<close> or beyond is an infinity. Every
  arithmetic operation on finite Numbers returns \<open>fl\<close> of the exact result, and a
  decimal string converts to \<open>fl\<close> of the value it denotes.
\<close>

definition fl :: "real \<Rightarrow> jsnum" where
  "fl x =
     (if x = 0 then Fin 0
      else
        let e = binade 1100 \<bar>x\<bar>;
            q = max e (- 1022) - 52;
            m = round_half_even (\<bar>x\<bar> / pow2 q);
            v = of_int m * pow2 q
        in if 2 ^ 1024 \<le> v then (if 0 < x then PosInf else NegInf)
           else Fin (if 0 < x then v else - v))"

fun js_sub :: "jsnum \<Rightarrow> jsnum \<Rightarrow> jsnum" where
  "js_sub (Fin x) (Fin y) = fl (x - y)"
| "js_sub NaN b = NaN"
| "js_sub a NaN = NaN"
| "js_sub PosInf PosInf = NaN"
| "js_sub NegInf NegInf = NaN"
| "js_sub PosInf b = PosInf"
| "js_sub NegInf b = NegInf"
| "js_sub (Fin x) PosInf = NegInf"
| "js_sub (Fin x) NegInf = PosInf"

fun js_mul :: "jsnum \<Rightarrow> jsnum \<Rightarrow> jsnum" where
  "js_mul (Fin x) (Fin y) = fl (x * y)"
| "js_mul NaN b = NaN"
| "js_mul a NaN = NaN"
| "js_mul (Fin x) b = (if x = 0 then NaN else if (0 < x) = (b = PosInf) then PosInf else NegInf)"
| "js_mul a (Fin y) = (if y = 0 then NaN else if (0 < y) = (a = PosInf) then PosInf else NegInf)"
| "js_mul PosInf PosInf = PosInf"
| "js_mul NegInf NegInf = PosInf"
| "js_mul PosInf NegInf = NegInf"
| "js_mul NegInf PosInf = NegInf"

fun js_div :: "jsnum \<Rightarrow> jsnum \<Rightarrow> jsnum" where
  "js_div (Fin x) (Fin y) =
     (if y = 0 then (if x = 0 then NaN else if 0 < x then PosInf else NegInf)
      else fl (x / y))"
| "js_div NaN b = NaN"
| "js_div a NaN = NaN"
| "js_div (Fin x) b = Fin 0"
| "js_div a (Fin y) = (if (0 \<le> y) = (a = PosInf) then PosInf else NegInf)"
| "js_div PosInf PosInf = NaN"
| "js_div PosInf NegInf = NaN"
| "js_div NegInf PosInf = NaN"
| "js_div NegInf NegInf = NaN"

fun js_abs :: "jsnum \<Rightarrow> jsnum" where
  "js_abs (Fin x) = Fin \<bar>x\<bar>"
| "js_abs NaN = NaN"
| "js_abs a = PosInf"

text \<open>\<open>Math.min\<close> of two numbers\<close>

fun js_min :: "jsnum \<Rightarrow> jsnum \<Rightarrow> jsnum" where
  "js_min (Fin x) (Fin y) = Fin (min x y)"
| "js_min NaN b = NaN"
| "js_min a NaN = NaN"
| "js_min NegInf b = NegInf"
| "js_min a NegInf = NegInf"
| "js_min PosInf b = b"
| "js_min a PosInf = a"

fun js_ge :: "jsnum \<Rightarrow> jsnum \<Rightarrow> bool" where
  "js_ge (Fin x) (Fin y) = (y \<le> x)"
| "js_ge NaN b = False"
| "js_ge a NaN = False"
| "js_ge PosInf b = True"
| "js_ge a NegInf = True"
| "js_ge NegInf (Fin y) = False"
| "js_ge NegInf PosInf = False"
| "js_ge (Fin x) PosInf = False"

fun js_gt :: "jsnum \<Rightarrow> jsnum \<Rightarrow> bool" where
  "js_gt (Fin x) (Fin y) = (y < x)"
| "js_gt NaN b = False"
| "js_gt a NaN = False"
| "js_gt a PosInf = False"
| "js_gt NegInf b = False"
| "js_gt PosInf (Fin y) = True"
| "js_gt PosInf NegInf = True"
| "js_gt (Fin x) NegInf = True"

text \<open>
  A variable that holds a number or \<open>undefined\<close> (\<open>None\<close>): its truthiness, its
  comparison \<open>==\<close> with a number, and \<open>Number(x)\<close>.
\<close>

fun js_truthy :: "jsnum option \<Rightarrow> bool" where
  "js_truthy None = False"
| "js_truthy (Some a) = (a \<noteq> NaN \<and> a \<noteq> Fin 0)"

fun js_eq :: "jsnum option \<Rightarrow> jsnum \<Rightarrow> bool" where
  "js_eq None b = False"
| "js_eq (Some a) b = (a \<noteq> NaN \<and> a = b)"

fun Number' :: "jsnum option \<Rightarrow> jsnum" where
  "Number' None = NaN"
| "Number' (Some a) = a"

section \<open>Shared data\<close>

text \<open>
  A position as the ledger returns it. \<open>loanId\<close> is \<open>None\<close> when the entry
  carries no identifier (\<open>undefined\<close>); the JavaScript test \<open>!l.loanId\<close> also
  holds for the empty string. \<open>maxLiquidatable\<close> is an unsigned amount; the
  code only ever compares it with \<open>0\<close>.
\<close>

record loan =
  loanId :: "string option"
  loanToken :: string
  maxLiquidatable :: nat

text \<open>
  The fields of \<open>config/config\<close> that the three controllers read; \<open>beneficiary\<close>
  stands for \<open>A.arbitrage[0].adr\<close> of the accounts file.
\<close>

record conf =
  nrOfProcessingPositions :: nat
  waitBetweenRounds :: nat
  network :: string
  sovrynInternalTelegramId :: string
  testTokenRBTC :: string
  docToken :: string
  thresholdArbitrage :: jsnum
  beneficiary :: string

text \<open>
  The two mappings that the entry point hands to the scanner and to the liquidator,
  keyed by \<open>loanId\<close>: the own properties of two plain objects, whose values are
  position objects.
\<close>

record shared =
  positions :: "string \<rightharpoonup> loan"
  liquidations :: "string \<rightharpoonup> loan"

text \<open>
  A plain object inherits from \<open>Object.prototype\<close> (the scanner itself calls
  \<open>this.positions.hasOwnProperty\<close>). These are the names it inherits; each of them reads
  as a function or an object, so as a truthy value. \<open>obj[k]\<close> is truthy when \<open>k\<close> is an
  own key, whose value is a position object, or one of these names.
\<close>

definition object_prototype :: "string list" where
  "object_prototype =
     [''constructor'', ''__defineGetter__'', ''__defineSetter__'', ''hasOwnProperty'',
      ''__lookupGetter__'', ''__lookupSetter__'', ''isPrototypeOf'', ''propertyIsEnumerable'',
      ''toString'', ''valueOf'', ''__proto__'', ''toLocaleString'']"

definition truthy_at :: "(string \<rightharpoonup> loan) \<Rightarrow> string \<Rightarrow> bool" where
  "truthy_at obj k = (obj k \<noteq> None \<or> k \<in> set object_prototype)"

text \<open>Exceptions raised by the JavaScript runtime itself.\<close>

datatype js_error = TypeError | ReferenceError

section \<open>Position scanner\<close>

text \<open>
  What one call of \<open>getActiveLoans(from, to, false).call(cb)\<close> does: it invokes the
  callback with an error, invokes it with a result, or throws synchronously.
\<close>

datatype ledger_reply = CallbackError | CallbackResult "loan list" | CallThrows

text \<open>
  The value the promise of \<open>loadActivePositions\<close> resolves to: \<open>resolve()\<close> gives
  \<open>undefined\<close>, \<open>resolve(false)\<close> gives \<open>false\<close>, \<open>resolve(res)\<close> the array.
\<close>

datatype js_page = JsUndefined | JsFalse | JsArray "loan list"

definition loadActivePositions :: "ledger_reply \<Rightarrow> js_page" where
  "loadActivePositions reply =
     (case reply of
        CallbackError \<Rightarrow> JsUndefined
      | CallbackResult res \<Rightarrow> JsArray res
      | CallThrows \<Rightarrow> JsFalse)"

text \<open>\<open>if (pos)\<close>: an array is truthy even when empty.\<close>

fun truthy :: "js_page \<Rightarrow> bool" where
  "truthy JsUndefined = False"
| "truthy JsFalse = False"
| "truthy (JsArray xs) = True"

text \<open>
  \<open>pos.length\<close>: reading a property of \<open>undefined\<close> throws a TypeError; \<open>false.length\<close>
  is \<open>undefined\<close> (here \<open>None\<close>); an array has its length.
\<close>

fun js_length :: "js_page \<Rightarrow> js_error + nat option" where
  "js_length JsUndefined = Inl TypeError"
| "js_length JsFalse = Inr None"
| "js_length (JsArray xs) = Inr (Some (length xs))"

text \<open>\<open>x > 0\<close> for a length or \<open>undefined\<close>: \<open>undefined > 0\<close> is false.\<close>

fun gt_zero :: "nat option \<Rightarrow> bool" where
  "gt_zero None = False"
| "gt_zero (Some n) = (0 < n)"

fun elements :: "js_page \<Rightarrow> loan list" where
  "elements (JsArray xs) = xs"
| "elements _ = []"

datatype effect = ConsoleLog nat | WasteTime nat

text \<open>
  The scanner's state: the two shared mappings, the local cursor \<open>from\<close>, \<open>to\<close> of
  \<open>processPositions\<close>, and the log lines and pauses of the loop in the order they
  happen.
\<close>

record scanner = shared +
  from' :: nat
  to' :: nat
  trace :: "effect list"

text \<open>\<open>!l.loanId\<close>\<close>

fun missing :: "string option \<Rightarrow> bool" where
  "missing None = True"
| "missing (Some k) = (k = [])"

fun addPosition :: "loan list \<Rightarrow> scanner \<Rightarrow> scanner" where
  "addPosition [] s = s"
| "addPosition (l # loans) s =
     (if missing (loanId l) then addPosition loans s
      else let k = the (loanId l) in
        if \<not> truthy_at (positions s) k then
          addPosition loans
            (s\<lparr>positions := (positions s)(k \<mapsto> l),
               liquidations :=
                 (if 0 < maxLiquidatable l then (liquidations s)(k \<mapsto> l)
                  else liquidations s)\<rparr>)
        else addPosition loans s)"

text \<open>The two branches of the loop body after the page has been merged.\<close>

definition next_page :: "conf \<Rightarrow> scanner \<Rightarrow> scanner" where
  "next_page c s =
     s\<lparr>from' := to' s,
       to' := to' s + nrOfProcessingPositions c,
       trace := trace s @ [WasteTime 1]\<rparr>"

definition reached_current_state :: "conf \<Rightarrow> scanner \<Rightarrow> scanner" where
  "reached_current_state c s =
     s\<lparr>positions := Map.empty,
       from' := 0,
       to' := nrOfProcessingPositions c,
       trace := trace s @ [ConsoleLog (card (dom (positions s))), WasteTime (waitBetweenRounds c)]\<rparr>"

text \<open>
  One pass through the body of \<open>while (true)\<close>. \<open>Inl e\<close>: the body throws \<open>e\<close>, which
  rejects the promise of the async function and ends the loop.
\<close>

definition processPositions_body :: "conf \<Rightarrow> ledger_reply \<Rightarrow> scanner \<Rightarrow> js_error + scanner" where
  "processPositions_body c reply s =
     (let pos = loadActivePositions reply;
          s1 = (if truthy pos then addPosition (elements pos) s else s)
      in case js_length pos of
           Inl e \<Rightarrow> Inl e
         | Inr len \<Rightarrow>
             if gt_zero len then Inr (next_page c s1)
             else Inr (reached_current_state c s1))"

text \<open>
  The loop, run against the replies of the ledger to its successive queries; it stops at
  the first exception.
\<close>

fun processPositions_loop :: "conf \<Rightarrow> ledger_reply list \<Rightarrow> scanner \<Rightarrow> js_error + scanner" where
  "processPositions_loop c [] s = Inr s"
| "processPositions_loop c (r # rs) s =
     (case processPositions_body c r s of
        Inl e \<Rightarrow> Inl e
      | Inr s' \<Rightarrow> processPositions_loop c rs s')"

definition processPositions :: "conf \<Rightarrow> ledger_reply list \<Rightarrow> scanner \<Rightarrow> js_error + scanner" where
  "processPositions c rs s =
     processPositions_loop c rs (s\<lparr>from' := 0, to' := nrOfProcessingPositions c\<rparr>)"

section \<open>Liquidator\<close>

text \<open>
  Modelled from the spec: the wallet controller (\<open>controller/wallet\<close>) is not among the
  sources. Its busy set holds the (purpose, wallet address, target) assignments in
  flight; \<open>addToQueue\<close> and \<open>removeFromQueue\<close> mutate it.
\<close>

type_synonym busy_set = "(string \<times> string \<times> string) set"

definition addToQueue :: "string \<Rightarrow> string \<Rightarrow> string \<Rightarrow> busy_set \<Rightarrow> busy_set" where
  "addToQueue purpose adr target q = insert (purpose, adr, target) q"

definition removeFromQueue :: "string \<Rightarrow> string \<Rightarrow> string \<Rightarrow> busy_set \<Rightarrow> busy_set" where
  "removeFromQueue purpose adr target q = q - {(purpose, adr, target)}"

text \<open>A liquidation call handed to the ledger client, with its send options.\<close>

record liquidate_call =
  call_loanId :: string
  call_receiver :: string
  call_amount :: nat
  call_from :: string
  call_gas :: nat
  call_nonce :: nat
  call_value :: nat

text \<open>
  The liquidator's world: the shared mappings, the wallet controller's busy set, the
  liquidation calls submitted and the messages sent to the operator channel
  (recipient, text), both in order.
\<close>

record liquidator = shared +
  busy :: busy_set
  submitted :: "liquidate_call list"
  telegram :: "(string \<times> string) list"

text \<open>
  \<open>liquidate\<close> up to and including the submission of the call; what the promise of
  \<open>send\<close> does later is \<open>liquidate_settled\<close>. The parameter \<open>lid\<close> is the source's
  \<open>loanId\<close>.
\<close>

definition liquidate :: "string \<Rightarrow> string \<Rightarrow> nat \<Rightarrow> string \<Rightarrow> nat \<Rightarrow> liquidator \<Rightarrow> liquidator" where
  "liquidate lid wallet amount token nonce s =
     (let val = (if token = ''rBtc'' then amount else 0) in
      s\<lparr>busy := addToQueue ''liquidator'' wallet lid (busy s),
        liquidations := (liquidations s)(lid := None),
        submitted := submitted s @
          [\<lparr>call_loanId = lid, call_receiver = wallet, call_amount = amount,
            call_from = wallet, call_gas = 2500000, call_nonce = nonce, call_value = val\<rparr>]\<rparr>)"

definition handleLiqSuccess :: "conf \<Rightarrow> string \<Rightarrow> string \<Rightarrow> string \<Rightarrow> liquidator \<Rightarrow> liquidator" where
  "handleLiqSuccess c wallet lid txHash s =
     (let msg = network c @ ''net-liquidation of loan '' @ lid @ '' successful. '' @
                [CHR 0x0A] @ '' '' @ txHash in
      s\<lparr>busy := removeFromQueue ''liquidator'' wallet lid (busy s),
        telegram := telegram s @ [(sovrynInternalTelegramId c, msg)]\<rparr>)"

text \<open>
  \<open>updatedLoan\<close> is what \<open>C.getPositionStatus(loanId)\<close> resolves to; the contract
  controller is not among the sources.
\<close>

definition handleLiqError :: "conf \<Rightarrow> string \<Rightarrow> string \<Rightarrow> loan \<Rightarrow> liquidator \<Rightarrow> liquidator" where
  "handleLiqError c wallet lid updatedLoan s =
     (let s1 = s\<lparr>busy := removeFromQueue ''liquidator'' wallet lid (busy s)\<rparr> in
      if 0 < maxLiquidatable updatedLoan then
        s1\<lparr>telegram := telegram s1 @
          [(sovrynInternalTelegramId c,
            network c @ ''net-liquidation of loan '' @ lid @ '' failed.'')]\<rparr>
      else s1)"

definition handleNoWalletError :: "conf \<Rightarrow> string \<Rightarrow> liquidator \<Rightarrow> liquidator" where
  "handleNoWalletError c lid s =
     s\<lparr>telegram := telegram s @
       [(sovrynInternalTelegramId c,
         network c @ ''net-liquidation of loan '' @ lid @
         '' failed because no wallet with enough funds was found.'')]\<rparr>"

text \<open>
  How the promise of \<open>send\<close> settles. In the \<open>then\<close> callback the success handler runs
  and the next statement calls \<open>addLiqLog\<close> as a free identifier, which no scope binds
  (it is a method of the class): the ReferenceError rejects the promise that \<open>then\<close>
  returned, so the \<open>catch\<close> callback runs the failure handler after it.
\<close>

datatype send_outcome = Fulfilled string | Rejected

definition liquidate_settled ::
  "conf \<Rightarrow> string \<Rightarrow> string \<Rightarrow> send_outcome \<Rightarrow> loan \<Rightarrow> liquidator \<Rightarrow> liquidator" where
  "liquidate_settled c wallet lid outcome updatedLoan s =
     (case outcome of
        Fulfilled txHash \<Rightarrow>
          handleLiqError c wallet lid updatedLoan (handleLiqSuccess c wallet lid txHash s)
      | Rejected \<Rightarrow> handleLiqError c wallet lid updatedLoan s)"

section \<open>Arbitrage\<close>

text \<open>
  \<open>this.amount\<close> is the Number of the literal \<open>0.010\<close>, that is \<open>fl amount\<close>; its
  \<open>toString()\<close> is the decimal string \<open>0.01\<close>, of value \<open>amount\<close>.
\<close>

definition amount :: real where
  "amount = 0.010"

text \<open>
  The unit conversions of \<open>web3.utils\<close> between wei and ether, on the values that the
  decimal strings denote.
\<close>

definition toWei :: "real \<Rightarrow> real" where
  "toWei x = x * 10 ^ 18"

definition fromWei :: "nat \<Rightarrow> real" where
  "fromWei n = real n / 10 ^ 18"

definition calcArbitrage :: "jsnum \<Rightarrow> jsnum \<Rightarrow> jsnum \<Rightarrow> jsnum option" where
  "calcArbitrage p1 p2 threshold =
     (let smallerAmount = js_min p1 p2;
          arbitrage = js_mul (js_div (js_abs (js_sub p1 p2)) smallerAmount) (Fin 100)
      in if js_ge arbitrage threshold then Some smallerAmount else None)"

text \<open>
  The first half of a round of \<open>start\<close>: from the two prices \<open>p\<close> of \<open>getRBtcPrices\<close>
  (decimal strings, here the values they denote) to the call of \<open>sendLiquidity\<close> that
  the round makes, if any, as (amount, currency). Every comparison and \<open>calcArbitrage\<close>
  convert the strings to Numbers, \<open>fl\<close> of their values; \<open>toWei\<close> reads the strings
  themselves.
\<close>

definition start_trade :: "conf \<Rightarrow> real \<times> real \<Rightarrow> (real \<times> string) option" where
  "start_trade c p =
     (let arb = (if js_gt (fl (fst p)) (Fin 0) \<and> js_gt (fl (snd p)) (Fin 0)
                 then calcArbitrage (fl (fst p)) (fl (snd p)) (thresholdArbitrage c)
                 else None)
      in if js_truthy arb \<and> js_eq arb (fl (fst p)) then Some (toWei (fst p), ''Doc'')
         else if js_truthy arb \<and> js_eq arb (fl (snd p)) then Some (toWei amount, ''Rbtc'')
         else None)"

text \<open>
  What \<open>conversionPath(sourceToken, destToken).call(cb)\<close> does. \<open>PathThrows\<close>: an
  exception reaches the \<open>catch\<close> around the call. \<open>PathCallback error result\<close>: the
  call returns, and the ledger client invokes the callback later, when the reply of the
  node has arrived, with an error or with a result, which may be absent. What the swap
  submitted afterwards does: it fulfils with a transaction, or it rejects.
\<close>

datatype path_reply = PathThrows | PathCallback bool "string list option"

datatype swap_reply = SwapFulfilled string | SwapRejected

record swap_call =
  swap_path :: "string list"
  swap_amount :: real
  swap_minReturn :: nat
  swap_from :: string
  swap_gas :: nat
  swap_value :: real

text \<open>
  A promise either resolves to a value or never settles. \<open>sendLiquidity\<close> yields its
  promise, the path query it made as (sourceToken, destToken), the swaps it submitted
  and the exception, if any, that escaped from the callback it gave to the ledger client.
\<close>

datatype 'a promise = Resolves 'a | Pending

record liquidity_result =
  promise :: "string option promise"
  queried :: "string \<times> string"
  swaps :: "swap_call list"
  uncaught :: "js_error option"

text \<open>
  In the error branch of the callback the argument of \<open>console.error\<close> reads
  \<open>contract._address\<close>, and no variable \<open>contract\<close> is in scope (the locals are
  \<open>contract1\<close> and \<open>contract2\<close>): the ReferenceError leaves the callback before
  \<open>return resolve()\<close>, and the surrounding \<open>try\<close> has long been left.
\<close>

definition sendLiquidity :: "conf \<Rightarrow> real \<Rightarrow> string \<Rightarrow> path_reply \<Rightarrow> swap_reply \<Rightarrow> liquidity_result" where
  "sendLiquidity c amnt currency path swap =
     (let sourceToken = (if currency = ''Doc'' then docToken c else testTokenRBTC c);
          destToken = (if currency = ''Doc'' then testTokenRBTC c else docToken c);
          minReturn = 1;
          val = (if currency = ''Doc'' then 0 else amnt)
      in case path of
           PathThrows \<Rightarrow>
             \<lparr>promise = Resolves None, queried = (sourceToken, destToken), swaps = [],
              uncaught = None\<rparr>
         | PathCallback error result \<Rightarrow>
             if error \<or> result = None \<or> length (the result) \<noteq> 3 then
               \<lparr>promise = Pending, queried = (sourceToken, destToken), swaps = [],
                uncaught = Some ReferenceError\<rparr>
             else
               let sent = \<lparr>swap_path = the result, swap_amount = amnt, swap_minReturn = minReturn,
                           swap_from = beneficiary c, swap_gas = 2500000, swap_value = val\<rparr>
               in (case swap of
                     SwapFulfilled tx \<Rightarrow>
                       \<lparr>promise = Resolves (Some tx), queried = (sourceToken, destToken),
                        swaps = [sent], uncaught = None\<rparr>
                   | SwapRejected \<Rightarrow>
                       \<lparr>promise = Resolves None, queried = (sourceToken, destToken),
                        swaps = [sent], uncaught = None\<rparr>))"

text \<open>
  The Conversion event of the receipt as \<open>U.parseEventParams\<close> returns it, amounts in
  wei; and the record handed to \<open>db.addArbitrage\<close>.
\<close>

record conversion =
  fromToken :: string
  toToken :: string
  fromAmount :: nat
  toAmount :: nat
  trader :: string

record arbitrage_row =
  row_adr :: string
  row_fromToken :: string
  row_toToken :: string
  row_fromAmount :: jsnum
  row_toAmount :: jsnum
  row_profit :: jsnum
  row_trade :: string

text \<open>\<open>toLowerCase\<close> on the ASCII strings that token addresses are\<close>

definition toLowerCase :: "string \<Rightarrow> string" where
  "toLowerCase =
     map (\<lambda>ch. case map_of (zip ''ABCDEFGHIJKLMNOPQRSTUVWXYZ'' ''abcdefghijklmnopqrstuvwxyz'') ch of
                 Some lower \<Rightarrow> lower
               | None \<Rightarrow> ch)"

text \<open>
  \<open>calculateProfit(txHash, btcPriceFeed)\<close>. The receipt is fetched and decoded by
  collaborators: \<open>conversionEvent\<close> is the decoded Conversion event, \<open>None\<close> when
  there is no receipt, no such event, or the lookup throws (the \<open>catch\<close> only logs).
  \<open>btcPriceFeed\<close> is \<open>None\<close> when the caller passes no second argument. The result
  is the record that is persisted, if one is.
\<close>

definition calculateProfit :: "conf \<Rightarrow> conversion option \<Rightarrow> jsnum option \<Rightarrow> arbitrage_row option" where
  "calculateProfit c conversionEvent btcPriceFeed =
     (case conversionEvent of
        None \<Rightarrow> None
      | Some ev \<Rightarrow>
          let priceFeed = js_div (Number' btcPriceFeed) (fl amount);
              fromAmount' = fl (fromWei (fromAmount ev));
              toAmount' = fl (fromWei (toAmount ev));
              sell = (toLowerCase (fromToken ev) = toLowerCase (testTokenRBTC c));
              toAmountWithPFeed =
                (if sell then js_mul fromAmount' priceFeed else js_div fromAmount' priceFeed);
              trade = (if sell then ''sell btc'' else ''buy btc'');
              profit = js_sub toAmount' toAmountWithPFeed
          in Some \<lparr>row_adr = trader ev, row_fromToken = fromToken ev, row_toToken = toToken ev,
                   row_fromAmount = fromAmount', row_toAmount = toAmount',
                   row_profit = profit, row_trade = trade\<rparr>)"

text \<open>
  One round of \<open>start\<close> against the replies of its collaborators. \<open>None\<close>: the round
  never completes, because the promise it awaits never settles. Otherwise the swaps
  submitted and the records persisted in the round. \<open>calculateProfit(res)\<close> is called
  with one argument.
\<close>

record round_result =
  round_swaps :: "swap_call list"
  round_rows :: "arbitrage_row list"

definition start_round ::
  "conf \<Rightarrow> real \<times> real \<Rightarrow> path_reply \<Rightarrow> swap_reply \<Rightarrow> conversion option \<Rightarrow> round_result option" where
  "start_round c p path swap conversionEvent =
     (case start_trade c p of
        None \<Rightarrow> Some \<lparr>round_swaps = [], round_rows = []\<rparr>
      | Some (amnt, currency) \<Rightarrow>
          let r = sendLiquidity c amnt currency path swap in
          (case promise r of
             Pending \<Rightarrow> None
           | Resolves None \<Rightarrow> Some \<lparr>round_swaps = swaps r, round_rows = []\<rparr>
           | Resolves (Some res) \<Rightarrow>
               Some \<lparr>round_swaps = swaps r,
                     round_rows = (case calculateProfit c conversionEvent None of
                                     None \<Rightarrow> [] | Some row \<Rightarrow> [row])\<rparr>))"

section \<open>Notions used to state the properties\<close>

text \<open>
  An entry can be stored when it has a \<open>loanId\<close>, not empty, that is not a name every
  object inherits. \<open>keyed_by_loanId\<close>: the entries of a list of loans that can be
  stored, each under its \<open>loanId\<close>, in the order returned. \<open>map_of\<close> of such a list is
  the mapping in which the first entry under a key stands.
\<close>

definition storable :: "loan \<Rightarrow> bool" where
  "storable l = (\<not> missing (loanId l) \<and> the (loanId l) \<notin> set object_prototype)"

definition keyed_by_loanId :: "loan list \<Rightarrow> (string \<times> loan) list" where
  "keyed_by_loanId loans = map (\<lambda>l. (the (loanId l), l)) (filter storable loans)"

text \<open>
  The percentage that \<open>calcArbitrage\<close> compares with the threshold, as it computes it
  from two Numbers: \<open>Math.abs(p1 - p2) / Math.min(p1, p2) * 100\<close>, each operation
  rounded.
\<close>

definition percentage :: "jsnum \<Rightarrow> jsnum \<Rightarrow> jsnum" where
  "percentage a b = js_mul (js_div (js_abs (js_sub a b)) (js_min a b)) (Fin 100)"

text \<open>Concrete data for the worked instances below.\<close>

definition ex_conf :: conf where
  "ex_conf = \<lparr>nrOfProcessingPositions = 2, waitBetweenRounds = 60, network = ''test'',
     sovrynInternalTelegramId = ''-100'', testTokenRBTC = ''0xAb'', docToken = ''0xcD'',
     thresholdArbitrage = Fin 2, beneficiary = ''0x01''\<rparr>"

definition ex_loan :: "string \<Rightarrow> nat \<Rightarrow> loan" where
  "ex_loan k m = \<lparr>loanId = Some k, loanToken = ''0xcD'', maxLiquidatable = m\<rparr>"

definition ex_anonymous :: loan where
  "ex_anonymous = \<lparr>loanId = None, loanToken = ''0xcD'', maxLiquidatable = 9\<rparr>"

definition ex_scanner :: scanner where
  "ex_scanner = \<lparr>positions = Map.empty, liquidations = Map.empty,
     from' = 0, to' = 0, trace = []\<rparr>"

definition ex_after_reset :: scanner where
  "ex_after_reset = \<lparr>positions = Map.empty, liquidations = [''a'' \<mapsto> ex_loan ''a'' 5],
     from' = 0, to' = 2, trace = [WasteTime 1, ConsoleLog 1, WasteTime 60]\<rparr>"

definition ex_page :: "loan list" where
  "ex_page = [ex_anonymous, ex_loan [] 3, ex_loan ''a'' 5, ex_loan ''a'' 0, ex_loan ''b'' 0]"

definition ex_mid_cycle :: scanner where
  "ex_mid_cycle = \<lparr>positions = [''a'' \<mapsto> ex_loan ''a'' 5, ''b'' \<mapsto> ex_loan ''b'' 0],
     liquidations = [''a'' \<mapsto> ex_loan ''a'' 5],
     from' = 2, to' = 4, trace = [WasteTime 1]\<rparr>"

definition ex_liquidator :: liquidator where
  "ex_liquidator = \<lparr>positions = [''a'' \<mapsto> ex_loan ''a'' 5],
     liquidations = [''a'' \<mapsto> ex_loan ''a'' 5],
     busy = {}, submitted = [], telegram = []\<rparr>"

definition ex_path :: "string list" where
  "ex_path = [''0xcD'', ''0xEe'', ''0xAb'']"

definition ex_conversion :: conversion where
  "ex_conversion = \<lparr>fromToken = ''0xAB'', toToken = ''0xcD'',
     fromAmount = 10 ^ 18, toAmount = 105 * 10 ^ 18, trader = ''0x01''\<rparr>"

section \<open>Properties of the position scanner\<close>

lemma missing_iff: "\<not> missing x \<longleftrightarrow> (\<exists>k. x = Some k \<and> k \<noteq> [])"
  by (cases x) auto

lemma addPosition_positions:
  "positions (addPosition loans s) = map_of (keyed_by_loanId loans) ++ positions s"
  by (induction loans arbitrary: s)
    (auto simp: keyed_by_loanId_def storable_def truthy_at_def map_add_def fun_eq_iff Let_def
       split: option.splits)

lemma addPosition_keeps:
  "positions s k = Some l \<Longrightarrow> positions (addPosition loans s) k = Some l"
  by (simp add: addPosition_positions map_add_def)


lemma addPosition_skip:
  "missing (loanId l) \<or> truthy_at (positions s) (the (loanId l)) \<Longrightarrow>
   addPosition (l # loans) s = addPosition loans s"
  by (auto simp: Let_def)

lemma addPosition_new_position:
  "positions (addPosition loans s) k \<noteq> positions s k \<Longrightarrow>
     positions s k = None \<and> k \<noteq> [] \<and>
     (\<exists>l \<in> set loans. loanId l = Some k \<and> positions (addPosition loans s) k = Some l)"
proof (induction loans arbitrary: s)
  case Nil
  then show ?case by simp
next
  case (Cons l loans)
  show ?case
  proof (cases "\<not> missing (loanId l) \<and> \<not> truthy_at (positions s) (the (loanId l))")
    case False
    then have "addPosition (l # loans) s = addPosition loans s"
      by (intro addPosition_skip) auto
    with Cons show ?thesis by auto
  next
    case True
    then obtain k0 where k0: "loanId l = Some k0" "k0 \<noteq> []" "positions s k0 = None"
      by (auto simp: missing_iff truthy_at_def)
    define s1 where "s1 = s\<lparr>positions := (positions s)(k0 \<mapsto> l),
        liquidations :=
          (if 0 < maxLiquidatable l then (liquidations s)(k0 \<mapsto> l) else liquidations s)\<rparr>"
    have step: "addPosition (l # loans) s = addPosition loans s1"
      using True k0 by (simp add: s1_def Let_def)
    show ?thesis
    proof (cases "k = k0")
      case True
      have "positions s1 k0 = Some l" by (simp add: s1_def)
      then have "positions (addPosition loans s1) k0 = Some l" by (rule addPosition_keeps)
      with True k0 step show ?thesis by simp
    next
      case False
      then have same: "positions s1 k = positions s k" by (simp add: s1_def)
      with Cons.prems step have "positions (addPosition loans s1) k \<noteq> positions s1 k" by simp
      from Cons.IH [OF this] same step show ?thesis by auto
    qed
  qed
qed

lemma addPosition_new_liquidation:
  "liquidations (addPosition loans s) k \<noteq> liquidations s k \<Longrightarrow>
     positions s k = None \<and> k \<noteq> [] \<and>
     (\<exists>l \<in> set loans. loanId l = Some k \<and> 0 < maxLiquidatable l \<and>
        positions (addPosition loans s) k = Some l \<and>
        liquidations (addPosition loans s) k = Some l)"
proof (induction loans arbitrary: s)
  case Nil
  then show ?case by simp
next
  case (Cons l loans)
  show ?case
  proof (cases "\<not> missing (loanId l) \<and> \<not> truthy_at (positions s) (the (loanId l))")
    case False
    then have "addPosition (l # loans) s = addPosition loans s"
      by (intro addPosition_skip) auto
    with Cons show ?thesis by auto
  next
    case True
    then obtain k0 where k0: "loanId l = Some k0" "k0 \<noteq> []" "positions s k0 = None"
      by (auto simp: missing_iff truthy_at_def)
    define s1 where "s1 = s\<lparr>positions := (positions s)(k0 \<mapsto> l),
        liquidations :=
          (if 0 < maxLiquidatable l then (liquidations s)(k0 \<mapsto> l) else liquidations s)\<rparr>"
    have step: "addPosition (l # loans) s = addPosition loans s1"
      using True k0 by (simp add: s1_def Let_def)
    have pos1: "positions s1 k0 = Some l" by (simp add: s1_def)
    show ?thesis
    proof (cases "liquidations (addPosition loans s1) k = liquidations s1 k")
      case True
      with Cons.prems step have "liquidations s1 k \<noteq> liquidations s k" by simp
      then have "k = k0" "0 < maxLiquidatable l" "liquidations s1 k = Some l"
        by (auto simp: s1_def split: if_splits)
      moreover have "positions (addPosition loans s1) k0 = Some l"
        using pos1 by (rule addPosition_keeps)
      ultimately show ?thesis using k0 step True by simp
    next
      case False
      from Cons.IH [OF this] have ih: "positions s1 k = None" "k \<noteq> []"
        "\<exists>l \<in> set loans. loanId l = Some k \<and> 0 < maxLiquidatable l \<and>
          positions (addPosition loans s1) k = Some l \<and>
          liquidations (addPosition loans s1) k = Some l"
        by auto
      from ih(1) pos1 have "k \<noteq> k0" by auto
      then have "positions s k = positions s1 k" by (simp add: s1_def)
      with ih step show ?thesis by auto
    qed
  qed
qed

lemma addPosition_all_missing:
  "\<forall>l \<in> set loans. missing (loanId l) \<Longrightarrow> addPosition loans s = s"
  by (induction loans arbitrary: s) auto

lemma addPosition_inclusion:
  assumes "dom (liquidations s) \<subseteq> dom (positions s)"
  shows "dom (liquidations (addPosition loans s)) \<subseteq> dom (positions (addPosition loans s))"
proof
  fix k
  assume k: "k \<in> dom (liquidations (addPosition loans s))"
  show "k \<in> dom (positions (addPosition loans s))"
  proof (cases "liquidations (addPosition loans s) k = liquidations s k")
    case True
    with k have "k \<in> dom (liquidations s)" by (simp add: dom_def)
    with assms have "k \<in> dom (positions s)" by blast
    then obtain l where "positions s k = Some l" by blast
    then have "positions (addPosition loans s) k = Some l" by (rule addPosition_keeps)
    then show ?thesis by auto
  next
    case False
    from addPosition_new_liquidation [OF this] show ?thesis by auto
  qed
qed

lemma body_page:
  "page \<noteq> [] \<Longrightarrow>
   processPositions_body c (CallbackResult page) s = Inr (next_page c (addPosition page s))"
  by (simp add: processPositions_body_def loadActivePositions_def)

lemma body_empty_page:
  "processPositions_body c (CallbackResult []) s = Inr (reached_current_state c s)"
  by (simp add: processPositions_body_def loadActivePositions_def)

lemma body_throw_is_empty_page:
  "processPositions_body c CallThrows s = processPositions_body c (CallbackResult []) s"
  by (simp add: processPositions_body_def loadActivePositions_def)





lemmas scanner_eval =
  processPositions_def processPositions_body_def loadActivePositions_def next_page_def
  reached_current_state_def truthy_at_def object_prototype_def ex_conf_def ex_loan_def
  ex_anonymous_def ex_scanner_def ex_after_reset_def ex_mid_cycle_def ex_page_def Let_def

text \<open>
  C1. A failed page query is to count as an empty page, and the loop is to go on. When
  the ledger call reports its failure through the callback, \<open>loadActivePositions\<close>
  resolves to \<open>undefined\<close>, the guard \<open>if (pos)\<close> skips the merge, and the following
  \<open>pos.length\<close> throws a TypeError: the body reaches neither branch, and the loop ends
  there, whatever the ledger would have answered afterwards. Only the failure that is
  thrown synchronously behaves as an empty page (\<open>body_throw_is_empty_page\<close>).
\<close>

theorem callback_error_ends_loop:
  "processPositions_body c CallbackError s = Inl TypeError \<and>
   processPositions_loop c (CallbackError # rs) s = Inl TypeError \<and>
   processPositions c (CallbackError # rs) s = Inl TypeError \<and>
   processPositions_body c CallbackError s \<noteq> processPositions_body c (CallbackResult []) s"
  by (simp add: processPositions_def processPositions_body_def loadActivePositions_def)

text \<open>
  C2, as stated: every key of \<open>liquidations\<close> is a key of \<open>positions\<close> at every point,
  also right after the reset at the end of a cycle. It fails there: one page with one
  liquidatable position, then the empty page, leave \<open>positions\<close> empty and the position
  in \<open>liquidations\<close>.
\<close>

theorem reset_breaks_inclusion:
  "processPositions ex_conf [CallbackResult [ex_loan ''a'' 5], CallbackResult []] ex_scanner
     = Inr ex_after_reset \<and>
   \<not> dom (liquidations ex_after_reset) \<subseteq> dom (positions ex_after_reset)"
  by (simp add: scanner_eval)

text \<open>
  C2, amended. Whatever a merge of a page changes in \<open>liquidations\<close> is a key that was
  not in \<open>positions\<close> before and is in \<open>positions\<close> after it, with the same entry. So
  a merge keeps the inclusion of the keys of \<open>liquidations\<close> in the keys of \<open>positions\<close>
  when it holds before, and so do a whole pass of the loop body over a non-empty page
  and the dispatch of a liquidation. The pass over the empty page clears \<open>positions\<close>
  and leaves \<open>liquidations\<close> as it is, so the inclusion holds after it exactly when
  \<open>liquidations\<close> is empty.
\<close>

theorem inclusion_within_cycle:
  "(\<forall>k. liquidations (addPosition loans s) k \<noteq> liquidations s k \<longrightarrow>
        positions s k = None \<and>
        liquidations (addPosition loans s) k \<noteq> None \<and>
        positions (addPosition loans s) k = liquidations (addPosition loans s) k) \<and>
   (dom (liquidations s) \<subseteq> dom (positions s) \<longrightarrow>
      dom (liquidations (addPosition loans s)) \<subseteq> dom (positions (addPosition loans s))) \<and>
   (page \<noteq> [] \<and> dom (liquidations s) \<subseteq> dom (positions s) \<longrightarrow>
      (\<exists>s'. processPositions_body c (CallbackResult page) s = Inr s' \<and>
            dom (liquidations s') \<subseteq> dom (positions s'))) \<and>
   (dom (liquidations t) \<subseteq> dom (positions t) \<longrightarrow>
      dom (liquidations (liquidate lid wallet amnt token nonce t))
        \<subseteq> dom (positions (liquidate lid wallet amnt token nonce t))) \<and>
   (\<exists>s'. processPositions_body c (CallbackResult []) s = Inr s' \<and>
         positions s' = Map.empty \<and> liquidations s' = liquidations s \<and>
         (dom (liquidations s') \<subseteq> dom (positions s') \<longleftrightarrow> liquidations s = Map.empty))"
proof (intro conjI impI allI)
  fix k
  assume "liquidations (addPosition loans s) k \<noteq> liquidations s k"
  from addPosition_new_liquidation [OF this]
  show "positions s k = None" and "liquidations (addPosition loans s) k \<noteq> None"
    and "positions (addPosition loans s) k = liquidations (addPosition loans s) k"
    by auto
next
  assume "dom (liquidations s) \<subseteq> dom (positions s)"
  then show "dom (liquidations (addPosition loans s)) \<subseteq> dom (positions (addPosition loans s))"
    by (rule addPosition_inclusion)
next
  assume a: "page \<noteq> [] \<and> dom (liquidations s) \<subseteq> dom (positions s)"
  then have "dom (liquidations (addPosition page s)) \<subseteq> dom (positions (addPosition page s))"
    by (intro addPosition_inclusion) simp
  with a show "\<exists>s'. processPositions_body c (CallbackResult page) s = Inr s' \<and>
      dom (liquidations s') \<subseteq> dom (positions s')"
    by (simp add: body_page next_page_def)
next
  assume "dom (liquidations t) \<subseteq> dom (positions t)"
  then show "dom (liquidations (liquidate lid wallet amnt token nonce t))
        \<subseteq> dom (positions (liquidate lid wallet amnt token nonce t))"
    by (auto simp: liquidate_def Let_def split: if_splits)
next
  show "\<exists>s'. processPositions_body c (CallbackResult []) s = Inr s' \<and>
         positions s' = Map.empty \<and> liquidations s' = liquidations s \<and>
         (dom (liquidations s') \<subseteq> dom (positions s') \<longleftrightarrow> liquidations s = Map.empty)"
    by (simp add: body_empty_page reached_current_state_def)
qed

theorem inclusion_within_cycle_witness:
  "liquidations (addPosition [ex_loan ''b'' 7] ex_after_reset) ''b''
     \<noteq> liquidations ex_after_reset ''b'' \<and>
   \<not> dom (liquidations ex_after_reset) \<subseteq> dom (positions ex_after_reset) \<and>
   positions ex_after_reset ''b'' = None \<and>
   positions (addPosition [ex_loan ''b'' 7] ex_after_reset) ''b'' = Some (ex_loan ''b'' 7) \<and>
   [ex_loan ''c'' 1, ex_loan ''a'' 9] \<noteq> [] \<and>
   liquidations ex_mid_cycle ''a'' = Some (ex_loan ''a'' 5) \<and>
   dom (liquidations ex_mid_cycle) \<subseteq> dom (positions ex_mid_cycle) \<and>
   (\<exists>s'. processPositions_body ex_conf (CallbackResult [ex_loan ''c'' 1, ex_loan ''a'' 9])
           ex_mid_cycle = Inr s' \<and>
         liquidations s' ''c'' = Some (ex_loan ''c'' 1) \<and>
         liquidations s' ''a'' = Some (ex_loan ''a'' 5) \<and>
         dom (liquidations s') \<subseteq> dom (positions s'))"
proof -
  have h1: "liquidations (addPosition [ex_loan ''b'' 7] ex_after_reset) ''b''
      \<noteq> liquidations ex_after_reset ''b''"
    by (simp add: scanner_eval)
  have v1: "liquidations (addPosition [ex_loan ''b'' 7] ex_after_reset) ''b''
      = Some (ex_loan ''b'' 7)"
    by (simp add: scanner_eval)
  have n1: "\<not> dom (liquidations ex_after_reset) \<subseteq> dom (positions ex_after_reset)"
    by (simp add: scanner_eval)
  have h2: "[ex_loan ''c'' 1, ex_loan ''a'' 9] \<noteq> [] \<and>
      dom (liquidations ex_mid_cycle) \<subseteq> dom (positions ex_mid_cycle)"
    by (simp add: scanner_eval)
  have v2: "liquidations ex_mid_cycle ''a'' = Some (ex_loan ''a'' 5)"
    by (simp add: scanner_eval)
  have b: "processPositions_body ex_conf (CallbackResult [ex_loan ''c'' 1, ex_loan ''a'' 9])
      ex_mid_cycle = Inr (next_page ex_conf (addPosition [ex_loan ''c'' 1, ex_loan ''a'' 9] ex_mid_cycle))"
    by (simp add: body_page)
  have v3: "liquidations (next_page ex_conf (addPosition [ex_loan ''c'' 1, ex_loan ''a'' 9] ex_mid_cycle)) ''c''
      = Some (ex_loan ''c'' 1)"
    "liquidations (next_page ex_conf (addPosition [ex_loan ''c'' 1, ex_loan ''a'' 9] ex_mid_cycle)) ''a''
      = Some (ex_loan ''a'' 5)"
    by (simp_all add: scanner_eval)
  note t1 = inclusion_within_cycle [where s = ex_after_reset and loans = "[ex_loan ''b'' 7]",
      THEN conjunct1, THEN spec, THEN mp, OF h1]
  from t1 v1
  have p1: "positions ex_after_reset ''b'' = None \<and>
      positions (addPosition [ex_loan ''b'' 7] ex_after_reset) ''b'' = Some (ex_loan ''b'' 7)"
    by simp
  note t2 = inclusion_within_cycle [where s = ex_mid_cycle and c = ex_conf
      and page = "[ex_loan ''c'' 1, ex_loan ''a'' 9]",
      THEN conjunct2, THEN conjunct2, THEN conjunct1, THEN mp, OF h2]
  from t2 b
  have p2: "dom (liquidations (next_page ex_conf
        (addPosition [ex_loan ''c'' 1, ex_loan ''a'' 9] ex_mid_cycle)))
      \<subseteq> dom (positions (next_page ex_conf
        (addPosition [ex_loan ''c'' 1, ex_loan ''a'' 9] ex_mid_cycle)))"
    by simp
  show ?thesis
    using h1 n1 p1 h2 v2 b v3 p2 by simp
qed



text \<open>
  C10. A merge skips every entry whose \<open>loanId\<close> is missing or empty. Whatever it
  changes in \<open>positions\<close> is a key that was absent, is not empty, and now holds an entry
  of the page with that \<open>loanId\<close>; whatever it changes in \<open>liquidations\<close> is such a key
  as well, inserted into \<open>positions\<close> by the same merge with the same entry, which has
  \<open>maxLiquidatable > 0\<close>. So the empty key never enters either mapping.
\<close>

theorem addPosition_skips_missing_loanId:
  "((\<forall>l \<in> set loans. missing (loanId l)) \<longrightarrow> addPosition loans s = s) \<and>
   (\<forall>k. positions (addPosition loans s) k \<noteq> positions s k \<longrightarrow>
        positions s k = None \<and> k \<noteq> [] \<and>
        (\<exists>l \<in> set loans. loanId l = Some k \<and> positions (addPosition loans s) k = Some l)) \<and>
   (\<forall>k. liquidations (addPosition loans s) k \<noteq> liquidations s k \<longrightarrow>
        positions s k = None \<and> k \<noteq> [] \<and>
        (\<exists>l \<in> set loans. loanId l = Some k \<and> 0 < maxLiquidatable l \<and>
           positions (addPosition loans s) k = Some l \<and>
           liquidations (addPosition loans s) k = Some l)) \<and>
   ([] \<notin> dom (positions s) \<and> [] \<notin> dom (liquidations s) \<longrightarrow>
      [] \<notin> dom (positions (addPosition loans s)) \<and>
      [] \<notin> dom (liquidations (addPosition loans s)))"
proof (intro conjI allI impI)
  assume "\<forall>l \<in> set loans. missing (loanId l)"
  then show "addPosition loans s = s" by (rule addPosition_all_missing)
next
  fix k
  assume "positions (addPosition loans s) k \<noteq> positions s k"
  from addPosition_new_position [OF this]
  show "positions s k = None" and "k \<noteq> []"
    and "\<exists>l \<in> set loans. loanId l = Some k \<and> positions (addPosition loans s) k = Some l"
    by auto
next
  fix k
  assume "liquidations (addPosition loans s) k \<noteq> liquidations s k"
  from addPosition_new_liquidation [OF this]
  show "positions s k = None" and "k \<noteq> []"
    and "\<exists>l \<in> set loans. loanId l = Some k \<and> 0 < maxLiquidatable l \<and>
           positions (addPosition loans s) k = Some l \<and>
           liquidations (addPosition loans s) k = Some l"
    by auto
next
  assume a: "[] \<notin> dom (positions s) \<and> [] \<notin> dom (liquidations s)"
  show "[] \<notin> dom (positions (addPosition loans s))"
    using a addPosition_new_position [of loans s "[]"] by (cases "positions s []") auto
  show "[] \<notin> dom (liquidations (addPosition loans s))"
    using a addPosition_new_liquidation [of loans s "[]"] by (cases "liquidations s []") auto
qed

theorem addPosition_skips_missing_loanId_witness:
  "addPosition [ex_anonymous, ex_loan [] 3] ex_scanner = ex_scanner \<and>
   liquidations (addPosition ex_page ex_scanner) ''a'' \<noteq> liquidations ex_scanner ''a'' \<and>
   positions ex_scanner ''a'' = None \<and>
   positions (addPosition ex_page ex_scanner) ''a'' = Some (ex_loan ''a'' 5) \<and>
   liquidations (addPosition ex_page ex_scanner) ''a'' = Some (ex_loan ''a'' 5) \<and>
   [] \<notin> dom (positions (addPosition ex_page ex_scanner)) \<and>
   [] \<notin> dom (liquidations (addPosition ex_page ex_scanner))"
proof -
  have h1: "\<forall>l \<in> set [ex_anonymous, ex_loan [] 3]. missing (loanId l)"
    by (simp add: ex_anonymous_def ex_loan_def)
  have h2: "liquidations (addPosition ex_page ex_scanner) ''a'' \<noteq> liquidations ex_scanner ''a''"
    by (simp add: scanner_eval)
  have h3: "[] \<notin> dom (positions ex_scanner) \<and> [] \<notin> dom (liquidations ex_scanner)"
    by (simp add: ex_scanner_def)
  have v: "positions (addPosition ex_page ex_scanner) ''a'' = Some (ex_loan ''a'' 5)"
    by (simp add: scanner_eval)
  from addPosition_skips_missing_loanId [of "[ex_anonymous, ex_loan [] 3]" ex_scanner] h1
  have "addPosition [ex_anonymous, ex_loan [] 3] ex_scanner = ex_scanner"
    by blast
  moreover from addPosition_skips_missing_loanId [of ex_page ex_scanner] h2 h3 v
  have "positions ex_scanner ''a'' = None \<and>
        liquidations (addPosition ex_page ex_scanner) ''a'' = Some (ex_loan ''a'' 5) \<and>
        [] \<notin> dom (positions (addPosition ex_page ex_scanner)) \<and>
        [] \<notin> dom (liquidations (addPosition ex_page ex_scanner))"
    by metis
  ultimately show ?thesis using h2 v by simp
qed

section \<open>Properties of the liquidator\<close>

text \<open>
  C3. \<open>liquidate\<close> deletes the candidate's \<open>loanId\<close> from \<open>liquidations\<close>, and nothing
  else, in the same step that submits the call, so before the call has an outcome;
  the success handler and the failure handler leave \<open>liquidations\<close> as they find it.
  Whatever the outcome, once the promise has settled \<open>liquidations\<close> is what the
  dispatch left.
\<close>

theorem liquidate_removes_at_dispatch:
  "liquidations (liquidate lid wallet amnt token nonce s) = (liquidations s)(lid := None) \<and>
   lid \<notin> dom (liquidations (liquidate lid wallet amnt token nonce s)) \<and>
   length (submitted (liquidate lid wallet amnt token nonce s)) = Suc (length (submitted s)) \<and>
   liquidations (handleLiqSuccess c wallet lid txHash t) = liquidations t \<and>
   liquidations (handleLiqError c wallet lid updatedLoan t) = liquidations t \<and>
   liquidations (liquidate_settled c wallet lid outcome updatedLoan
                   (liquidate lid wallet amnt token nonce s))
     = (liquidations s)(lid := None)"
  by (cases outcome)
    (simp_all add: liquidate_def handleLiqSuccess_def handleLiqError_def
      liquidate_settled_def Let_def)

theorem liquidate_removes_at_dispatch_witness:
  "liquidations ex_liquidator ''a'' = Some (ex_loan ''a'' 5) \<and>
   liquidations (liquidate ''a'' ''0xw'' 5 ''0xcD'' 7 ex_liquidator) = Map.empty \<and>
   liquidations (liquidate_settled ex_conf ''0xw'' ''a'' (Fulfilled ''0xf1'') (ex_loan ''a'' 0)
                   (liquidate ''a'' ''0xw'' 5 ''0xcD'' 7 ex_liquidator)) = Map.empty \<and>
   liquidations (liquidate_settled ex_conf ''0xw'' ''a'' Rejected (ex_loan ''a'' 5)
                   (liquidate ''a'' ''0xw'' 5 ''0xcD'' 7 ex_liquidator)) = Map.empty"
  using liquidate_removes_at_dispatch [of "''a''" "''0xw''" 5 "''0xcD''" 7 ex_liquidator
      ex_conf "''0xf1''" ex_liquidator "ex_loan ''a'' 0" "Fulfilled ''0xf1''"]
    liquidate_removes_at_dispatch [of "''a''" "''0xw''" 5 "''0xcD''" 7 ex_liquidator
      ex_conf "''0xf1''" ex_liquidator "ex_loan ''a'' 5" Rejected]
  by (simp add: ex_liquidator_def)

text \<open>
  C6. The failure handler takes the assignment (liquidator, wallet, loanId) out of the
  busy set, and it sends a message to the operator channel exactly when the position
  as queried again has \<open>maxLiquidatable > 0\<close>: then the one message that the liquidation
  failed, otherwise none. It submits nothing. A rejected send runs this handler.
\<close>

theorem handleLiqError_escalation:
  "busy (handleLiqError c wallet lid updatedLoan s)
     = removeFromQueue ''liquidator'' wallet lid (busy s) \<and>
   (''liquidator'', wallet, lid) \<notin> busy (handleLiqError c wallet lid updatedLoan s) \<and>
   telegram (handleLiqError c wallet lid updatedLoan s)
     = (if 0 < maxLiquidatable updatedLoan
        then telegram s @ [(sovrynInternalTelegramId c,
               network c @ ''net-liquidation of loan '' @ lid @ '' failed.'')]
        else telegram s) \<and>
   (telegram (handleLiqError c wallet lid updatedLoan s) \<noteq> telegram s
      \<longleftrightarrow> 0 < maxLiquidatable updatedLoan) \<and>
   submitted (handleLiqError c wallet lid updatedLoan s) = submitted s \<and>
   liquidate_settled c wallet lid Rejected updatedLoan s
     = handleLiqError c wallet lid updatedLoan s"
  by (simp add: handleLiqError_def liquidate_settled_def removeFromQueue_def Let_def)

theorem handleLiqError_escalation_witness:
  "telegram (handleLiqError ex_conf ''0xw'' ''a'' (ex_loan ''a'' 0)
       (liquidate ''a'' ''0xw'' 5 ''0xcD'' 7 ex_liquidator)) = [] \<and>
   telegram (handleLiqError ex_conf ''0xw'' ''a'' (ex_loan ''a'' 5)
       (liquidate ''a'' ''0xw'' 5 ''0xcD'' 7 ex_liquidator))
     = [(''-100'', ''testnet-liquidation of loan a failed.'')] \<and>
   busy (liquidate ''a'' ''0xw'' 5 ''0xcD'' 7 ex_liquidator) = {(''liquidator'', ''0xw'', ''a'')} \<and>
   busy (handleLiqError ex_conf ''0xw'' ''a'' (ex_loan ''a'' 0)
       (liquidate ''a'' ''0xw'' 5 ''0xcD'' 7 ex_liquidator)) = {}"
  using handleLiqError_escalation [of ex_conf "''0xw''" "''a''" "ex_loan ''a'' 0"
      "liquidate ''a'' ''0xw'' 5 ''0xcD'' 7 ex_liquidator"]
    handleLiqError_escalation [of ex_conf "''0xw''" "''a''" "ex_loan ''a'' 5"
      "liquidate ''a'' ''0xw'' 5 ''0xcD'' 7 ex_liquidator"]
  by (simp add: ex_liquidator_def ex_conf_def ex_loan_def liquidate_def addToQueue_def
      removeFromQueue_def)

section \<open>Properties of the arbitrage controller\<close>

lemma js_nan_right: "js_mul a NaN = NaN" "js_div a NaN = NaN" "js_sub a NaN = NaN"
  by (cases a; simp)+

lemma calcArbitrage_percentage:
  "calcArbitrage a b t = (if js_ge (percentage a b) t then Some (js_min a b) else None)"
  by (simp add: calcArbitrage_def percentage_def Let_def)

lemma smaller_number:
  assumes "js_gt a (Fin 0)" and "js_gt b (Fin 0)"
  shows "js_truthy (Some (js_min a b))"
    and "js_eq (Some (js_min a b)) a = js_ge b a"
    and "\<not> js_ge b a \<Longrightarrow> js_eq (Some (js_min a b)) b"
    and "(\<not> js_ge b a) = js_gt a b"
  using assms by (cases a; cases b; auto simp: min_def)+

lemma start_trade_numbers:
  assumes "js_gt (fl A) (Fin 0)" and "js_gt (fl B) (Fin 0)"
  shows "start_trade c (A, B) =
           (if js_ge (percentage (fl A) (fl B)) (thresholdArbitrage c)
            then (if js_ge (fl B) (fl A) then Some (toWei A, ''Doc'')
                  else Some (toWei amount, ''Rbtc''))
            else None)"
proof -
  note s = smaller_number [OF assms]
  show ?thesis
  proof (cases "js_ge (fl B) (fl A)")
    case True
    with s(1,2) assms show ?thesis
      by (simp add: start_trade_def calcArbitrage_percentage Let_def)
  next
    case False
    with s(1,2) s(3) [OF False] assms show ?thesis
      by (simp add: start_trade_def calcArbitrage_percentage Let_def)
  qed
qed

lemma start_trade_guard:
  "start_trade c (A, B) = Some r \<Longrightarrow> js_gt (fl A) (Fin 0) \<and> js_gt (fl B) (Fin 0)"
  by (auto simp: start_trade_def split: if_splits)

lemma start_trade_cases:
  assumes "start_trade c (A, B) = Some (amnt, currency)"
  shows "(currency = ''Doc'' \<and> amnt = toWei A \<and> js_ge (fl B) (fl A)) \<or>
         (currency = ''Rbtc'' \<and> amnt = toWei amount \<and> js_gt (fl A) (fl B))"
proof -
  from start_trade_guard [OF assms] have pos: "js_gt (fl A) (Fin 0)" "js_gt (fl B) (Fin 0)"
    by simp_all
  from assms start_trade_numbers [OF pos, of c] smaller_number(4) [OF pos]
  show ?thesis by (auto split: if_splits)
qed

lemma sendLiquidity_amount:
  "x \<in> set (swaps (sendLiquidity c amnt currency path swap)) \<Longrightarrow> swap_amount x = amnt"
  by (auto simp: sendLiquidity_def Let_def split: path_reply.splits swap_reply.splits if_splits)

lemmas number_eval = fl_def binade.simps round_half_even_def pow2_def percentage_def Let_def

lemmas arbitrage_eval =
  start_round_def start_trade_def calcArbitrage_def sendLiquidity_def calculateProfit_def
  toWei_def fromWei_def amount_def toLowerCase_def ex_conf_def ex_path_def ex_conversion_def
  number_eval

text \<open>
  C5, as stated: the round trades exactly when \<open>|A - B| / min(A, B) * 100\<close> reaches the
  threshold. The code computes that percentage in Numbers, and the rounding moves the
  comparison both ways. With the quotes 100 and 157 the percentage is exactly 57, the
  code computes \<open>56.99999999999999\<close>, and at the threshold 57 it does not trade. With
  the quotes 50.00 and 50.999999999999999999 the percentage is below 2, the oracle
  quote converts to the Number 51, the code computes 2, and at the threshold 2 it
  trades.
\<close>

theorem exact_percentage_differs:
  "(57 :: real) \<le> \<bar>100 - 157\<bar> / min 100 157 * 100 \<and>
   percentage (fl 100) (fl 157) = Fin (8022036836253695 / 2 ^ 47) \<and>
   start_trade (ex_conf\<lparr>thresholdArbitrage := Fin 57\<rparr>) (100, 157) = None \<and>
   \<bar>50 - 50.999999999999999999\<bar> / min 50 50.999999999999999999 * 100 < (2 :: real) \<and>
   percentage (fl 50) (fl 50.999999999999999999) = Fin 2 \<and>
   start_trade (ex_conf\<lparr>thresholdArbitrage := Fin 2\<rparr>) (50, 50.999999999999999999)
     = Some (toWei 50, ''Doc'')"
  by (simp add: start_trade_def calcArbitrage_def number_eval)

text \<open>
  C5, amended. With both quotes positive as Numbers, the round calls \<open>sendLiquidity\<close>
  exactly when the percentage \<open>|A - B| / min(A, B) * 100\<close>, computed in Numbers as
  \<open>calcArbitrage\<close> computes it, reaches the threshold; \<open>calcArbitrage\<close> then returns the
  smaller Number, and the direction is the one of the smaller Number: currency Doc
  with the AMM quote as amount when the AMM quote \<open>A\<close> is not above the oracle quote
  \<open>B\<close>, currency Rbtc otherwise.
\<close>

theorem arbitrage_decision:
  assumes "js_gt (fl A) (Fin 0)" and "js_gt (fl B) (Fin 0)"
  shows "calcArbitrage (fl A) (fl B) (thresholdArbitrage c) =
           (if js_ge (percentage (fl A) (fl B)) (thresholdArbitrage c)
            then Some (js_min (fl A) (fl B)) else None) \<and>
         (start_trade c (A, B) \<noteq> None) = js_ge (percentage (fl A) (fl B)) (thresholdArbitrage c) \<and>
         start_trade c (A, B) =
           (if js_ge (percentage (fl A) (fl B)) (thresholdArbitrage c)
            then (if js_ge (fl B) (fl A) then Some (toWei A, ''Doc'')
                  else Some (toWei amount, ''Rbtc''))
            else None)"
  by (simp add: calcArbitrage_percentage start_trade_numbers [OF assms])

theorem arbitrage_decision_witness:
  "js_gt (fl 100) (Fin 0) \<and> js_gt (fl 102) (Fin 0) \<and>
   percentage (fl 100) (fl 102) = Fin 2 \<and>
   fl 2.0 = Fin 2 \<and> fl 2.1 = Fin (4728779608739021 / 2 ^ 51) \<and>
   calcArbitrage (fl 100) (fl 102) (fl 2.0) = Some (Fin 100) \<and>
   start_trade (ex_conf\<lparr>thresholdArbitrage := fl 2.0\<rparr>) (100, 102) = Some (toWei 100, ''Doc'') \<and>
   start_trade (ex_conf\<lparr>thresholdArbitrage := fl 2.1\<rparr>) (100, 102) = None"
proof -
  have h: "js_gt (fl 100) (Fin 0)" "js_gt (fl 102) (Fin 0)"
    by (simp_all add: number_eval)
  have n: "fl 100 = Fin 100" "fl 102 = Fin 102" "fl 2.0 = Fin 2"
    "fl 2.1 = Fin (4728779608739021 / 2 ^ 51)"
    by (simp_all add: number_eval)
  have p: "percentage (fl 100) (fl 102) = Fin 2"
    by (simp add: number_eval)
  from arbitrage_decision [OF h, of "ex_conf\<lparr>thresholdArbitrage := fl 2.0\<rparr>"]
    arbitrage_decision [OF h, of "ex_conf\<lparr>thresholdArbitrage := fl 2.1\<rparr>"] h n p
  show ?thesis by simp
qed

text \<open>
  C7. The profit persisted is to be the output amount minus the input amount times the
  oracle rate. \<open>calculateProfit\<close> computes that from its second argument
  (\<open>profit_with_price_feed\<close>), but the round calls it with the swap result alone: the
  price feed is \<open>undefined\<close>, \<open>Number(undefined)\<close> is NaN, and the profit of every
  record it persists is NaN; so it is for the event with input 1 and output 105.
\<close>

theorem profit_without_price_feed:
  "(\<exists>row. calculateProfit c (Some ev) None = Some row \<and> row_profit row = NaN) \<and>
   start_round ex_conf (100, 102) (PathCallback False (Some ex_path)) (SwapFulfilled ''0xf1'')
       (Some ex_conversion)
     = Some \<lparr>round_swaps =
               [\<lparr>swap_path = ex_path, swap_amount = toWei 100, swap_minReturn = 1,
                 swap_from = ''0x01'', swap_gas = 2500000, swap_value = 0\<rparr>],
             round_rows =
               [\<lparr>row_adr = ''0x01'', row_fromToken = ''0xAB'', row_toToken = ''0xcD'',
                 row_fromAmount = Fin 1, row_toAmount = Fin 105, row_profit = NaN,
                 row_trade = ''sell btc''\<rparr>]\<rparr>"
proof
  show "\<exists>row. calculateProfit c (Some ev) None = Some row \<and> row_profit row = NaN"
    by (simp add: calculateProfit_def Let_def js_nan_right)
  show "start_round ex_conf (100, 102) (PathCallback False (Some ex_path)) (SwapFulfilled ''0xf1'')
       (Some ex_conversion)
     = Some \<lparr>round_swaps =
               [\<lparr>swap_path = ex_path, swap_amount = toWei 100, swap_minReturn = 1,
                 swap_from = ''0x01'', swap_gas = 2500000, swap_value = 0\<rparr>],
             round_rows =
               [\<lparr>row_adr = ''0x01'', row_fromToken = ''0xAB'', row_toToken = ''0xcD'',
                 row_fromAmount = Fin 1, row_toAmount = Fin 105, row_profit = NaN,
                 row_trade = ''sell btc''\<rparr>]\<rparr>"
    by (simp add: arbitrage_eval)
qed

lemma profit_with_price_feed:
  "calculateProfit ex_conf (Some ex_conversion) (Some (Fin 1))
     = Some \<lparr>row_adr = ''0x01'', row_fromToken = ''0xAB'', row_toToken = ''0xcD'',
             row_fromAmount = Fin 1, row_toAmount = Fin 105, row_profit = Fin 5,
             row_trade = ''sell btc''\<rparr>"
  by (simp add: arbitrage_eval)

text \<open>
  C8, as stated: in both directions the amount submitted is the smaller of the two
  quotes. With the AMM quote at 102 and the oracle quote at 100 the round sends the
  fixed amount 0.010, that is \<open>10^16\<close> wei, and not the smaller quote of 100.
\<close>

theorem rbtc_direction_sends_fixed_amount:
  "start_trade ex_conf (102, 100) = Some (10 ^ 16, ''Rbtc'') \<and>
   toWei (min 102 100) = 10 ^ 20 \<and>
   start_round ex_conf (102, 100) (PathCallback False (Some ex_path)) SwapRejected None
     = Some \<lparr>round_swaps =
               [\<lparr>swap_path = ex_path, swap_amount = 10 ^ 16, swap_minReturn = 1,
                 swap_from = ''0x01'', swap_gas = 2500000, swap_value = 10 ^ 16\<rparr>],
             round_rows = []\<rparr>"
  by (simp add: arbitrage_eval)

text \<open>
  C8, amended. When the round trades in direction Doc, which it does when the AMM
  quote is, as a Number, the smaller one or equal to the oracle quote, the amount is
  the AMM quote; when it trades in direction Rbtc, which it does when the oracle quote
  is the smaller Number, the amount is the fixed \<open>this.amount\<close>. The swap submitted
  carries that amount.
\<close>

theorem trade_size_by_direction:
  assumes "start_trade c (A, B) = Some (amnt, currency)"
  shows "((currency = ''Doc'' \<and> amnt = toWei A \<and> js_ge (fl B) (fl A)) \<or>
          (currency = ''Rbtc'' \<and> amnt = toWei amount \<and> js_gt (fl A) (fl B))) \<and>
         (\<forall>x \<in> set (swaps (sendLiquidity c amnt currency path swap)). swap_amount x = amnt)"
  using start_trade_cases [OF assms] by (auto simp: sendLiquidity_amount)

theorem trade_size_by_direction_witness:
  "start_trade ex_conf (100, 102) = Some (toWei 100, ''Doc'') \<and>
   js_ge (fl 102) (fl 100) \<and>
   start_trade ex_conf (102, 100) = Some (toWei amount, ''Rbtc'') \<and>
   js_gt (fl 102) (fl 100) \<and>
   swap_amount (hd (swaps (sendLiquidity ex_conf (toWei amount) ''Rbtc''
       (PathCallback False (Some ex_path)) SwapRejected))) = toWei amount \<and>
   start_trade (ex_conf\<lparr>thresholdArbitrage := Fin 0\<rparr>)
       (100.000000000000000002, 100.000000000000000001)
     = Some (toWei 100.000000000000000002, ''Doc'') \<and>
   js_ge (fl 100.000000000000000001) (fl 100.000000000000000002)"
proof -
  have h1: "start_trade ex_conf (100, 102) = Some (toWei 100, ''Doc'')"
    by (simp add: arbitrage_eval)
  have h2: "start_trade ex_conf (102, 100) = Some (toWei amount, ''Rbtc'')"
    by (simp add: arbitrage_eval)
  have h3: "start_trade (ex_conf\<lparr>thresholdArbitrage := Fin 0\<rparr>)
       (100.000000000000000002, 100.000000000000000001)
     = Some (toWei 100.000000000000000002, ''Doc'')"
    by (simp add: start_trade_def calcArbitrage_def number_eval)
  have m: "hd (swaps (sendLiquidity ex_conf (toWei amount) ''Rbtc''
       (PathCallback False (Some ex_path)) SwapRejected))
     \<in> set (swaps (sendLiquidity ex_conf (toWei amount) ''Rbtc''
       (PathCallback False (Some ex_path)) SwapRejected))"
    by (simp add: sendLiquidity_def ex_path_def)
  from trade_size_by_direction [OF h1] have d1: "js_ge (fl 102) (fl 100)"
    by simp
  from trade_size_by_direction [OF h2] have d2: "js_gt (fl 102) (fl 100)"
    by (simp add: toWei_def amount_def)
  from trade_size_by_direction [OF h2] m
  have d3: "swap_amount (hd (swaps (sendLiquidity ex_conf (toWei amount) ''Rbtc''
       (PathCallback False (Some ex_path)) SwapRejected))) = toWei amount"
    by blast
  from trade_size_by_direction [OF h3]
  have d4: "js_ge (fl 100.000000000000000001) (fl 100.000000000000000002)"
    by simp
  from h1 h2 h3 d1 d2 d3 d4 show ?thesis
    by simp
qed

text \<open>
  C9. A missing or malformed conversion path is to abort the trade and let the round
  end. In that branch of the callback the log line reads the unbound variable
  \<open>contract\<close>: nothing is submitted, but the callback throws before it resolves the
  promise, which then never settles, and the round that awaits it never completes.
  The promise stays pending exactly when the path has not three elements.
\<close>

theorem malformed_path_never_resolves:
  "promise (sendLiquidity c amnt currency (PathCallback True result) swap) = Pending \<and>
   promise (sendLiquidity c amnt currency (PathCallback False None) swap) = Pending \<and>
   (promise (sendLiquidity c amnt currency (PathCallback False (Some path)) swap) = Pending)
     = (length path \<noteq> 3) \<and>
   sendLiquidity ex_conf (toWei 100) ''Doc'' (PathCallback False (Some [''0xcD'', ''0xAb''])) swap
     = \<lparr>promise = Pending, queried = (''0xcD'', ''0xAb''), swaps = [],
        uncaught = Some ReferenceError\<rparr> \<and>
   start_trade ex_conf (100, 102) = Some (toWei 100, ''Doc'') \<and>
   start_round ex_conf (100, 102) (PathCallback False (Some [''0xcD'', ''0xAb''])) swap ev = None"
  by (cases swap) (simp_all add: arbitrage_eval)

end
